theory Spec2Isabelle
  imports Main
begin

section \<open>The export record table\<close>

text \<open>
  The table component of \<^verbatim>\<open>src/unnamed/part_001\<close> receives the export records as
  the prop \<^verbatim>\<open>records\<close> and renders one row per record. Every cell template reads
  properties of \<^verbatim>\<open>row.item\<close>; the record below has one field per property read
  by the cells modelled here: format, expiration, up-to-dateness, readiness and actions
  (the first column, a date and its rendering, is left out). A flag that is
  \<^verbatim>\<open>undefined\<close> in JavaScript is falsy and is \<open>False\<close> here; \<^verbatim>\<open>expirationDate\<close> is a
  date object or \<^verbatim>\<open>undefined\<close>, and a date object is always truthy, so its truthiness
  is \<open>\<noteq> None\<close>.
\<close>

record export_item =
  modelStoreFormat :: string
  expirationDate :: "int option"
  expirationElapsedTime :: "string option"
  hasExpired :: bool
  isUpToDate :: bool
  isReady :: bool
  isPreparing :: bool
  canDownload :: bool
  canReimport :: bool

subsection \<open>Template nodes\<close>

text \<open>
  The text of a \<^verbatim>\<open>span\<close> is either written in the template (\<open>Static\<close>) or the value
  of an interpolation \<^verbatim>\<open>{{ ... }}\<close> (\<open>Mustache\<close>).
\<close>

datatype content = Static string | Mustache string

datatype span = Span (span_title: "int option") (span_content: content)

datatype icon =
  FontAwesomeIcon (icon_name: string) (spin: bool) (css_class: string) (icon_title: string)

text \<open>An interpolation shows \<^verbatim>\<open>undefined\<close> as the empty string.\<close>

fun toDisplayString :: "string option \<Rightarrow> string" where
  "toDisplayString None = []"
| "toDisplayString (Some s) = s"

text \<open>
  A chain \<^verbatim>\<open>v-if\<close> / \<^verbatim>\<open>v-else-if\<close> / \<^verbatim>\<open>v-else\<close> renders the element of its first
  branch whose condition holds and nothing when no condition holds; \<^verbatim>\<open>v-else\<close> is a
  branch whose condition is \<open>True\<close>.
\<close>

fun render_chain :: "(bool \<times> 'a) list \<Rightarrow> 'a list" where
  "render_chain [] = []"
| "render_chain ((c, n) # rest) = (if c then [n] else render_chain rest)"

subsection \<open>The cells\<close>

definition cell_format :: "'a export_item_scheme \<Rightarrow> span list" where
  "cell_format item = [Span None (Mustache (modelStoreFormat item))]"

definition cell_expires :: "'a export_item_scheme \<Rightarrow> span list" where
  "cell_expires item = render_chain
     [(hasExpired item, Span None (Static ''Expired'')),
      (expirationDate item \<noteq> None,
         Span (expirationDate item) (Mustache (toDisplayString (expirationElapsedTime item)))),
      (True, Span None (Static ''No''))]"

definition cell_isUpToDate :: "'a export_item_scheme \<Rightarrow> icon list" where
  "cell_isUpToDate item = render_chain
     [(isUpToDate item,
         FontAwesomeIcon ''check-circle'' False ''text-success''
           ''This export record contains the latest changes.''),
      (True,
         FontAwesomeIcon ''exclamation-circle'' False ''text-danger''
           ''This export record is outdated. Please consider generating a new export if you need the latest changes.'')]"

definition ready_icon :: icon where
  "ready_icon = FontAwesomeIcon ''check-circle'' False ''text-success''
     ''Ready to download or import.''"

definition preparing_icon :: icon where
  "preparing_icon = FontAwesomeIcon ''spinner'' True ''text-info'' ''Exporting in progress...''"

definition expired_icon :: icon where
  "expired_icon = FontAwesomeIcon ''exclamation-circle'' False ''text-danger''
     ''The export has expired.''"

definition failed_icon :: icon where
  "failed_icon = FontAwesomeIcon ''exclamation-circle'' False ''text-danger''
     ''The export failed.''"

definition cell_isReady :: "'a export_item_scheme \<Rightarrow> icon list" where
  "cell_isReady item = render_chain
     [(isReady item, ready_icon),
      (isPreparing item, preparing_icon),
      (hasExpired item, expired_icon),
      (True, failed_icon)]"

text \<open>
  The actions cell holds three buttons. The download and reimport buttons are always
  rendered, disabled by the negation of their flag; the copy-link button is rendered
  under \<^verbatim>\<open>v-if="row.item.canDownload"\<close>.
\<close>

datatype handler = DownloadObject | CopyDownloadLink | ReimportObject

datatype button =
  BButton (tooltip: bool) (disabled: bool) (button_title: string) (click: handler)
    (button_icon: string)

definition download_button :: "'a export_item_scheme \<Rightarrow> button" where
  "download_button item = BButton True (\<not> canDownload item) ''Download'' DownloadObject ''download''"

definition copy_link_button :: button where
  "copy_link_button = BButton False False ''Copy Download Link'' CopyDownloadLink ''link''"

definition reimport_button :: "'a export_item_scheme \<Rightarrow> button" where
  "reimport_button item = BButton True (\<not> canReimport item) ''Reimport'' ReimportObject ''file-import''"

definition cell_actions :: "'a export_item_scheme \<Rightarrow> button list" where
  "cell_actions item =
     [download_button item] @ render_chain [(canDownload item, copy_link_button)] @
     [reimport_button item]"

subsection \<open>The handlers\<close>

text \<open>
  The state of the component is the ref \<^verbatim>\<open>isExpanded\<close>; what it does to the outside is
  to emit events to its parent, kept here as the list of the events emitted so far, oldest
  first, each with its name and payload. The three handlers emit one event each and touch
  nothing else; \<^verbatim>\<open>reimportObject\<close> is declared \<^verbatim>\<open>async\<close> and awaits nothing, the other
  two are plain functions. The event \<^verbatim>\<open>onCopyDownloadLink\<close> is not among the names given
  to \<^verbatim>\<open>defineEmits\<close>; it is emitted all the same.
\<close>

record 'r table_state =
  isExpanded :: bool
  emitted :: "(string \<times> 'r) list"

definition emit :: "string \<Rightarrow> 'r \<Rightarrow> 'r table_state \<Rightarrow> 'r table_state" where
  "emit name payload st = st\<lparr>emitted := emitted st @ [(name, payload)]\<rparr>"

definition reimportObject :: "'r \<Rightarrow> 'r table_state \<Rightarrow> 'r table_state" where
  "reimportObject record = emit ''onReimport'' record"

definition downloadObject :: "'r \<Rightarrow> 'r table_state \<Rightarrow> 'r table_state" where
  "downloadObject record = emit ''onDownload'' record"

definition copyDownloadLink :: "'r \<Rightarrow> 'r table_state \<Rightarrow> 'r table_state" where
  "copyDownloadLink record = emit ''onCopyDownloadLink'' record"

text \<open>
  A click event on a button runs the handler bound to it on the row's item. The template
  binds the handlers without a condition and the handlers test nothing, so this holds for
  a disabled button as well: that a user's click does not reach a disabled button is the
  browser's doing, not the component's.
\<close>

definition on_click :: "button \<Rightarrow> 'r \<Rightarrow> 'r table_state \<Rightarrow> 'r table_state" where
  "on_click b item st =
     (case click b of
        DownloadObject \<Rightarrow> downloadObject item st
      | CopyDownloadLink \<Rightarrow> copyDownloadLink item st
      | ReimportObject \<Rightarrow> reimportObject item st)"

text \<open>
  The order of checks that the specification gives for the display state, written out to
  be compared with \<open>cell_isReady\<close>: preparing first, then expired, then ready, failed
  otherwise.
\<close>

definition spec_order_isReady :: "'a export_item_scheme \<Rightarrow> icon list" where
  "spec_order_isReady item = render_chain
     [(isPreparing item, preparing_icon),
      (hasExpired item, expired_icon),
      (isReady item, ready_icon),
      (True, failed_icon)]"

section \<open>The export record and its derived flags\<close>

text \<open>
  The model class behind the rows is not among the sources; the table only reads its
  properties. The definitions of this section follow the data model of the
  specification. Timestamps are integers.
\<close>

text \<open>
  Modelled from the spec: the raw job status of a record (the record model is not under
  src/), one of preparing, ready and failed.
\<close>

datatype job_state = Preparing | Ready | Failed

text \<open>
  Modelled from the spec: the fields of an export record (the record model is not under
  src/). \<^verbatim>\<open>id\<close> is \<open>record_id\<close> here; an absent \<^verbatim>\<open>expiresAt\<close> means that the record
  never expires.
\<close>

record export_record =
  record_id :: string
  createdAt :: int
  format :: string
  expiresAt :: "int option"
  jobState :: job_state
  sourceLastModifiedAt :: int

text \<open>
  Modelled from the spec: the derived flag \<^verbatim>\<open>hasExpired\<close> of the record model (not
  under src/): \<^verbatim>\<open>expiresAt\<close> is set and is before "now".
\<close>

definition derive_hasExpired :: "int \<Rightarrow> export_record \<Rightarrow> bool" where
  "derive_hasExpired now r = (case expiresAt r of None \<Rightarrow> False | Some e \<Rightarrow> e < now)"

text \<open>
  Modelled from the spec: the derived flag \<^verbatim>\<open>isPreparing\<close> of the record model (not
  under src/): \<^verbatim>\<open>jobState == preparing\<close>.
\<close>

definition derive_isPreparing :: "export_record \<Rightarrow> bool" where
  "derive_isPreparing r = (jobState r = Preparing)"

text \<open>
  Modelled from the spec: the derived flag \<^verbatim>\<open>isReady\<close> of the record model (not
  under src/): \<^verbatim>\<open>jobState == ready\<close> and not \<^verbatim>\<open>hasExpired\<close>.
\<close>

definition derive_isReady :: "int \<Rightarrow> export_record \<Rightarrow> bool" where
  "derive_isReady now r = (jobState r = Ready \<and> \<not> derive_hasExpired now r)"

text \<open>
  Modelled from the spec: the derived flag \<^verbatim>\<open>isUpToDate\<close> of the record model (not
  under src/): \<^verbatim>\<open>createdAt >= sourceLastModifiedAt\<close>.
\<close>

definition derive_isUpToDate :: "export_record \<Rightarrow> bool" where
  "derive_isUpToDate r = (createdAt r \<ge> sourceLastModifiedAt r)"

text \<open>
  Modelled from the spec: the derived flag \<^verbatim>\<open>canDownload\<close> of the record model (not
  under src/): it is \<^verbatim>\<open>isReady\<close>.
\<close>

definition derive_canDownload :: "int \<Rightarrow> export_record \<Rightarrow> bool" where
  "derive_canDownload now r = derive_isReady now r"

text \<open>
  Modelled from the spec: the derived flag \<^verbatim>\<open>canReimport\<close> of the record model (not
  under src/): it is \<^verbatim>\<open>isReady\<close>; being up to date is not required.
\<close>

definition derive_canReimport :: "int \<Rightarrow> export_record \<Rightarrow> bool" where
  "derive_canReimport now r = derive_isReady now r"

text \<open>
  Modelled from the spec: the \<^verbatim>\<open>expirationElapsedTime\<close> output of the State Derivation
  Engine (not under src/): a duration-to-now string, present when \<^verbatim>\<open>expiresAt\<close> is set
  and not yet passed. The rendering of a duration as text is a parameter, \<open>fmt\<close>.
\<close>

definition derive_expirationElapsedTime ::
    "(int \<Rightarrow> string) \<Rightarrow> int \<Rightarrow> export_record \<Rightarrow> string option" where
  "derive_expirationElapsedTime fmt now r =
     (case expiresAt r of
        None \<Rightarrow> None
      | Some e \<Rightarrow> if e < now then None else Some (fmt (e - now)))"

text \<open>
  Modelled from the spec: an enriched record (its class is not under src/), the raw
  fields and the derived flags. It is what the table receives as \<^verbatim>\<open>row.item\<close>: the
  properties the cells read, and the record they were derived from.
\<close>

record enriched_record = export_item +
  source :: export_record

text \<open>
  Modelled from the spec: the State Derivation Engine (not under src/), a pure function
  of the record and an injected "now" that gives the enriched record: the raw fields and
  the derived flags.
\<close>

definition derive :: "(int \<Rightarrow> string) \<Rightarrow> int \<Rightarrow> export_record \<Rightarrow> enriched_record" where
  "derive fmt now r =
     \<lparr> modelStoreFormat = format r,
       expirationDate = expiresAt r,
       expirationElapsedTime = derive_expirationElapsedTime fmt now r,
       hasExpired = derive_hasExpired now r,
       isUpToDate = derive_isUpToDate r,
       isReady = derive_isReady now r,
       isPreparing = derive_isPreparing r,
       canDownload = derive_canDownload now r,
       canReimport = derive_canReimport now r,
       source = r \<rparr>"

section \<open>The action gate and the dispatcher\<close>

text \<open>
  Modelled from the spec: the requests the Action Dispatcher (not under src/) sends to the
  backend, each for a record id.
\<close>

datatype request = DownloadRequest string | ReimportRequest string

text \<open>
  Modelled from the spec: the error of an action invoked while its gate is false (the
  Action Dispatcher is not under src/).
\<close>

datatype dispatch_error = PreconditionError

text \<open>
  Modelled from the spec: how an in-flight action ends (the Action Dispatcher is not
  under src/): by success, or by a failure with its message.
\<close>

datatype outcome = Succeeded | FailedWith string

text \<open>
  Modelled from the spec: the state of the Action Dispatcher (not under src/): the ids of
  the records with a request in flight, the requests sent to the backend so far and the
  errors surfaced to the caller, both oldest first.
\<close>

record dispatcher =
  busy :: "string set"
  requests :: "request list"
  errors :: "(string \<times> string) list"

text \<open>
  Modelled from the spec: the Action Gate for download (not under src/): the derived
  flag, and unavailable while a request for the record id is in flight.
\<close>

definition gate_canDownload :: "dispatcher \<Rightarrow> enriched_record \<Rightarrow> bool" where
  "gate_canDownload d e = (canDownload e \<and> record_id (source e) \<notin> busy d)"

text \<open>
  Modelled from the spec: the Action Gate for reimport (not under src/): the derived
  flag, and unavailable while a request for the record id is in flight.
\<close>

definition gate_canReimport :: "dispatcher \<Rightarrow> enriched_record \<Rightarrow> bool" where
  "gate_canReimport d e = (canReimport e \<and> record_id (source e) \<notin> busy d)"

text \<open>
  Modelled from the spec: the operation \<^verbatim>\<open>download\<close> of the Action Dispatcher (not
  under src/). It requires its gate, and is a precondition error otherwise; it marks the
  record busy, as the gate counts a download in flight, and sends one request.
\<close>

definition download :: "enriched_record \<Rightarrow> dispatcher \<Rightarrow> dispatch_error + dispatcher" where
  "download e d =
     (if gate_canDownload d e
      then Inr (d\<lparr>busy := insert (record_id (source e)) (busy d),
                  requests := requests d @ [DownloadRequest (record_id (source e))]\<rparr>)
      else Inl PreconditionError)"

text \<open>
  Modelled from the spec: the operation \<^verbatim>\<open>reimport\<close> of the Action Dispatcher (not
  under src/). It requires its gate, and is a precondition error otherwise; it marks the
  record busy for the duration of the call and sends one request.
\<close>

definition reimport :: "enriched_record \<Rightarrow> dispatcher \<Rightarrow> dispatch_error + dispatcher" where
  "reimport e d =
     (if gate_canReimport d e
      then Inr (d\<lparr>busy := insert (record_id (source e)) (busy d),
                  requests := requests d @ [ReimportRequest (record_id (source e))]\<rparr>)
      else Inl PreconditionError)"

text \<open>
  Modelled from the spec: the completion of an in-flight action of the Action Dispatcher
  (not under src/): the busy flag is cleared on success and on failure, and a failure is
  surfaced.
\<close>

definition resolve :: "string \<Rightarrow> outcome \<Rightarrow> dispatcher \<Rightarrow> dispatcher" where
  "resolve i out d =
     (case out of
        Succeeded \<Rightarrow> d\<lparr>busy := busy d - {i}\<rparr>
      | FailedWith msg \<Rightarrow> d\<lparr>busy := busy d - {i}, errors := errors d @ [(i, msg)]\<rparr>)"

section \<open>Sample data\<close>

text \<open>
  The record of the specification's scenario: created at \<open>T0 = 0\<close>, job ready, expiring
  one hour later (in seconds), with an unchanged source object. The sample
  formatter stands for the external duration formatting.
\<close>

definition scenario_record :: export_record where
  "scenario_record =
     \<lparr> record_id = ''e1'', createdAt = 0, format = ''rocrate.zip'',
       expiresAt = Some 3600, jobState = Ready, sourceLastModifiedAt = 0 \<rparr>"

definition sample_fmt :: "int \<Rightarrow> string" where
  "sample_fmt d = (if d < 3600 then ''in less than an hour'' else ''in an hour or more'')"


definition idle_dispatcher :: dispatcher where
  "idle_dispatcher = \<lparr> busy = {}, requests = [], errors = [] \<rparr>"

section \<open>The expiration column\<close>

text \<open>
  C10. In the expiration column, a record with \<open>hasExpired\<close> shows the literal text
  "Expired" and not the remaining-time string, whatever \<open>expirationDate\<close> is; the
  remaining-time string (the interpolation of \<open>expirationElapsedTime\<close>) is shown exactly
  when \<open>hasExpired\<close> is false and \<open>expirationDate\<close> is set; "No" is shown otherwise.
\<close>

theorem cell_expires_shows:
  "(hasExpired item \<longrightarrow> cell_expires item = [Span None (Static ''Expired'')]) \<and>
   (\<not> hasExpired item \<and> expirationDate item \<noteq> None \<longrightarrow>
      cell_expires item =
        [Span (expirationDate item) (Mustache (toDisplayString (expirationElapsedTime item)))]) \<and>
   (\<not> hasExpired item \<and> expirationDate item = None \<longrightarrow>
      cell_expires item = [Span None (Static ''No'')]) \<and>
   ((\<exists>s \<in> set (cell_expires item). \<exists>t. span_content s = Mustache t) \<longleftrightarrow>
      \<not> hasExpired item \<and> expirationDate item \<noteq> None)"
  by (simp add: cell_expires_def)

theorem cell_expires_shows_witness:
  "cell_expires
     \<lparr> modelStoreFormat = ''rocrate.zip'', expirationDate = Some 1000,
       expirationElapsedTime = Some ''in 2 hours'', hasExpired = True, isUpToDate = True,
       isReady = False, isPreparing = False, canDownload = False, canReimport = False \<rparr>
     = [Span None (Static ''Expired'')] \<and>
   cell_expires
     \<lparr> modelStoreFormat = ''rocrate.zip'', expirationDate = Some 1000,
       expirationElapsedTime = Some ''in 2 hours'', hasExpired = False, isUpToDate = True,
       isReady = True, isPreparing = False, canDownload = True, canReimport = True \<rparr>
     = [Span (Some 1000) (Mustache ''in 2 hours'')] \<and>
   cell_expires
     \<lparr> modelStoreFormat = ''rocrate.zip'', expirationDate = None,
       expirationElapsedTime = None, hasExpired = False, isUpToDate = True,
       isReady = True, isPreparing = False, canDownload = True, canReimport = True \<rparr>
     = [Span None (Static ''No'')]"
  using
    cell_expires_shows [of "\<lparr> modelStoreFormat = ''rocrate.zip'', expirationDate = Some 1000,
       expirationElapsedTime = Some ''in 2 hours'', hasExpired = True, isUpToDate = True,
       isReady = False, isPreparing = False, canDownload = False, canReimport = False \<rparr>"]
    cell_expires_shows [of "\<lparr> modelStoreFormat = ''rocrate.zip'', expirationDate = Some 1000,
       expirationElapsedTime = Some ''in 2 hours'', hasExpired = False, isUpToDate = True,
       isReady = True, isPreparing = False, canDownload = True, canReimport = True \<rparr>"]
    cell_expires_shows [of "\<lparr> modelStoreFormat = ''rocrate.zip'', expirationDate = None,
       expirationElapsedTime = None, hasExpired = False, isUpToDate = True,
       isReady = True, isPreparing = False, canDownload = True, canReimport = True \<rparr>"]
  by simp

section \<open>The readiness column\<close>




text \<open>
  C3. For every record and every instant the readiness cell of the derived record shows
  what the checks in the order preparing, expired, ready, failed show, so a record whose
  job is ready and whose expiration has passed is shown as expired and never as ready.
  The template itself tests \<open>isReady\<close> before \<open>isPreparing\<close> and \<open>hasExpired\<close>; the two
  orders give the same cell exactly for the items whose \<open>isReady\<close> excludes
  \<open>isPreparing\<close> and \<open>hasExpired\<close>, and every derived record is such an item.
\<close>

theorem cell_isReady_precedence:
  "cell_isReady (derive fmt now r) = spec_order_isReady (derive fmt now r) \<and>
   cell_isReady (derive fmt now r) =
     (if derive_isPreparing r then [preparing_icon]
      else if derive_hasExpired now r then [expired_icon]
      else if derive_isReady now r then [ready_icon]
      else [failed_icon]) \<and>
   (jobState r = Ready \<and> derive_hasExpired now r \<longrightarrow>
      cell_isReady (derive fmt now r) = [expired_icon] \<and>
      ready_icon \<notin> set (cell_isReady (derive fmt now r))) \<and>
   ((cell_isReady item = spec_order_isReady item) \<longleftrightarrow>
      (isReady item \<longrightarrow> \<not> isPreparing item \<and> \<not> hasExpired item))"
  by (auto simp add: cell_isReady_def spec_order_isReady_def derive_def derive_isReady_def
      derive_isPreparing_def ready_icon_def preparing_icon_def expired_icon_def failed_icon_def)

theorem cell_isReady_precedence_witness:
  "jobState scenario_record = Ready \<and> derive_hasExpired 7200 scenario_record \<and>
   cell_isReady (derive sample_fmt 7200 scenario_record) = [expired_icon] \<and>
   ready_icon \<notin> set (cell_isReady (derive sample_fmt 7200 scenario_record)) \<and>
   cell_isReady (derive sample_fmt 1800 scenario_record) =
     spec_order_isReady (derive sample_fmt 1800 scenario_record)"
proof -
  have h: "jobState scenario_record = Ready \<and> derive_hasExpired 7200 scenario_record"
    by (simp add: scenario_record_def derive_hasExpired_def)
  from cell_isReady_precedence [of sample_fmt 7200 scenario_record
      "derive sample_fmt 7200 scenario_record"] h
  have "cell_isReady (derive sample_fmt 7200 scenario_record) = [expired_icon] \<and>
      ready_icon \<notin> set (cell_isReady (derive sample_fmt 7200 scenario_record))"
    by blast
  moreover from cell_isReady_precedence [of sample_fmt 1800 scenario_record
      "derive sample_fmt 1800 scenario_record"]
  have "cell_isReady (derive sample_fmt 1800 scenario_record) =
      spec_order_isReady (derive sample_fmt 1800 scenario_record)"
    by blast
  ultimately show ?thesis using h by blast
qed

section \<open>The actions column\<close>

text \<open>
  C8. The copy-link button is in the actions cell exactly when \<open>canDownload\<close> holds for
  the item, which for a derived record means that its job is ready and it has not
  expired; it is the only button that runs \<open>copyDownloadLink\<close> and it is never disabled.
  The handler runs at once and only emits the event \<^verbatim>\<open>onCopyDownloadLink\<close> with the
  item, unchanged, as payload: it calls no backend and writes no state of the component.
\<close>

theorem copy_link_only_when_canDownload:
  "(copy_link_button \<in> set (cell_actions item) \<longleftrightarrow> canDownload item) \<and>
   (\<forall>b \<in> set (cell_actions item).
      click b = CopyDownloadLink \<longrightarrow> canDownload item \<and> b = copy_link_button \<and> \<not> disabled b) \<and>
   (canDownload (derive fmt now r) \<longleftrightarrow> jobState r = Ready \<and> \<not> derive_hasExpired now r) \<and>
   on_click copy_link_button item st = copyDownloadLink item st \<and>
   copyDownloadLink item st = st\<lparr>emitted := emitted st @ [(''onCopyDownloadLink'', item)]\<rparr> \<and>
   isExpanded (copyDownloadLink item st) = isExpanded st"
  by (auto simp add: cell_actions_def copy_link_button_def download_button_def
      reimport_button_def derive_def derive_canDownload_def derive_isReady_def on_click_def
      copyDownloadLink_def emit_def)

theorem copy_link_only_when_canDownload_witness:
  "copy_link_button \<in> set (cell_actions (derive sample_fmt 1800 scenario_record)) \<and>
   copy_link_button \<notin> set (cell_actions (derive sample_fmt 7200 scenario_record))"
proof -
  have ready: "jobState scenario_record = Ready"
    by (simp add: scenario_record_def)
  have early: "\<not> derive_hasExpired 1800 scenario_record"
    by (simp add: scenario_record_def derive_hasExpired_def)
  have late: "derive_hasExpired 7200 scenario_record"
    by (simp add: scenario_record_def derive_hasExpired_def)
  from copy_link_only_when_canDownload [of "derive sample_fmt 1800 scenario_record"
      sample_fmt 1800 scenario_record] ready early
  have "copy_link_button \<in> set (cell_actions (derive sample_fmt 1800 scenario_record))"
    by blast
  moreover from copy_link_only_when_canDownload [of "derive sample_fmt 7200 scenario_record"
      sample_fmt 7200 scenario_record] late
  have "copy_link_button \<notin> set (cell_actions (derive sample_fmt 7200 scenario_record))"
    by blast
  ultimately show ?thesis by blast
qed

section \<open>Properties of the derived flags\<close>

text \<open>
  C1. For every record and every instant, \<open>hasExpired\<close> and \<open>isReady\<close> are never both
  true; if \<open>expiresAt\<close> is set and lies before now and the job is ready, then \<open>isReady\<close>
  is false and \<open>hasExpired\<close> is true.
\<close>

theorem expiry_dominates_readiness:
  "\<not> (hasExpired (derive fmt now r) \<and> isReady (derive fmt now r)) \<and>
   \<not> (derive_hasExpired now r \<and> derive_isReady now r) \<and>
   (expiresAt r = Some e \<and> e < now \<and> jobState r = Ready \<longrightarrow>
      \<not> derive_isReady now r \<and> derive_hasExpired now r \<and>
      \<not> isReady (derive fmt now r) \<and> hasExpired (derive fmt now r))"
  by (simp add: derive_def derive_isReady_def derive_hasExpired_def)

theorem expiry_dominates_readiness_witness:
  "expiresAt scenario_record = Some 3600 \<and> (3600::int) < 7200 \<and>
   jobState scenario_record = Ready \<and>
   \<not> derive_isReady 7200 scenario_record \<and> derive_hasExpired 7200 scenario_record"
proof -
  have h: "expiresAt scenario_record = Some 3600 \<and> (3600::int) < 7200 \<and>
      jobState scenario_record = Ready"
    by (simp add: scenario_record_def)
  with expiry_dominates_readiness [of sample_fmt 7200 scenario_record 3600]
  show ?thesis by blast
qed

text \<open>
  C9. For every record \<open>isUpToDate\<close> is true if and only if
  \<open>createdAt \<ge> sourceLastModifiedAt\<close>; with equal timestamps the record is up to date.
\<close>

theorem isUpToDate_iff:
  "(derive_isUpToDate r \<longleftrightarrow> createdAt r \<ge> sourceLastModifiedAt r) \<and>
   (isUpToDate (derive fmt now r) \<longleftrightarrow> createdAt r \<ge> sourceLastModifiedAt r) \<and>
   (createdAt r = sourceLastModifiedAt r \<longrightarrow> isUpToDate (derive fmt now r))"
  by (simp add: derive_def derive_isUpToDate_def)

theorem isUpToDate_iff_witness:
  "createdAt scenario_record = sourceLastModifiedAt scenario_record \<and>
   isUpToDate (derive sample_fmt 1800 scenario_record) \<and>
   \<not> isUpToDate (derive sample_fmt 1800 (scenario_record\<lparr>sourceLastModifiedAt := 1\<rparr>))"
proof -
  have h: "createdAt scenario_record = sourceLastModifiedAt scenario_record"
    by (simp add: scenario_record_def)
  have l: "\<not> createdAt (scenario_record\<lparr>sourceLastModifiedAt := 1\<rparr>)
      \<ge> sourceLastModifiedAt (scenario_record\<lparr>sourceLastModifiedAt := 1\<rparr>)"
    by (simp add: scenario_record_def)
  from isUpToDate_iff [of scenario_record sample_fmt 1800]
    isUpToDate_iff [of "scenario_record\<lparr>sourceLastModifiedAt := 1\<rparr>" sample_fmt 1800] h l
  show ?thesis by blast
qed

section \<open>Properties of the gate and the dispatcher\<close>

lemma gate_busy:
  "record_id (source e) \<in> busy d \<Longrightarrow> \<not> gate_canDownload d e \<and> \<not> gate_canReimport d e"
  by (simp add: gate_canDownload_def gate_canReimport_def)

lemma busy_resolve: "i \<notin> busy (resolve i out d)"
  by (cases out) (simp_all add: resolve_def)

lemma reimport_marks_busy:
  "reimport e d = Inr d' \<Longrightarrow>
     busy d' = insert (record_id (source e)) (busy d) \<and>
     requests d' = requests d @ [ReimportRequest (record_id (source e))]"
  by (auto simp add: reimport_def split: if_splits)

lemma download_marks_busy:
  "download e d = Inr d' \<Longrightarrow>
     busy d' = insert (record_id (source e)) (busy d) \<and>
     requests d' = requests d @ [DownloadRequest (record_id (source e))]"
  by (auto simp add: download_def split: if_splits)

lemma busy_rejects:
  "record_id (source e) \<in> busy d \<Longrightarrow>
     reimport e d = Inl PreconditionError \<and> download e d = Inl PreconditionError"
  by (simp add: reimport_def download_def gate_busy)

text \<open>
  C5. While a request for a record id is in flight, the gates \<open>canDownload\<close> and
  \<open>canReimport\<close> are false for that id whatever the derived flags are, and a reimport or
  a download invoked then is rejected and sends nothing: after an accepted reimport, which
  adds exactly one request, a second one on the same record is a precondition error. Once
  the action resolves, by success or by failure, the gates are the derived flags again.
\<close>

theorem busy_gate:
  "(record_id (source e) \<in> busy d \<longrightarrow>
      \<not> gate_canDownload d e \<and> \<not> gate_canReimport d e \<and>
      reimport e d = Inl PreconditionError \<and> download e d = Inl PreconditionError) \<and>
   (reimport e d = Inr d' \<longrightarrow>
      record_id (source e) \<in> busy d' \<and>
      requests d' = requests d @ [ReimportRequest (record_id (source e))] \<and>
      reimport e d' = Inl PreconditionError \<and> download e d' = Inl PreconditionError) \<and>
   (download e d = Inr d' \<longrightarrow>
      record_id (source e) \<in> busy d' \<and>
      requests d' = requests d @ [DownloadRequest (record_id (source e))] \<and>
      reimport e d' = Inl PreconditionError \<and> download e d' = Inl PreconditionError) \<and>
   gate_canDownload (resolve (record_id (source e)) out d) e = canDownload e \<and>
   gate_canReimport (resolve (record_id (source e)) out d) e = canReimport e"
proof -
  have a: "reimport e d = Inr d' \<longrightarrow> record_id (source e) \<in> busy d'"
    using reimport_marks_busy [of e d d'] by auto
  have b: "download e d = Inr d' \<longrightarrow> record_id (source e) \<in> busy d'"
    using download_marks_busy [of e d d'] by auto
  show ?thesis
    using a b gate_busy [of e d] busy_rejects [of e d] busy_rejects [of e d']
      reimport_marks_busy [of e d d'] download_marks_busy [of e d d']
      busy_resolve [of "record_id (source e)" out d]
    by (auto simp add: gate_canDownload_def gate_canReimport_def)
qed

theorem busy_gate_witness:
  "reimport (derive sample_fmt 1800 scenario_record) idle_dispatcher =
     Inr \<lparr> busy = {''e1''}, requests = [ReimportRequest ''e1''], errors = [] \<rparr> \<and>
   reimport (derive sample_fmt 1800 scenario_record)
     \<lparr> busy = {''e1''}, requests = [ReimportRequest ''e1''], errors = [] \<rparr> =
     Inl PreconditionError \<and>
   \<not> gate_canDownload \<lparr> busy = {''e1''}, requests = [ReimportRequest ''e1''], errors = [] \<rparr>
     (derive sample_fmt 1800 scenario_record) \<and>
   gate_canReimport
     (resolve ''e1'' (FailedWith ''unsupported format'')
        \<lparr> busy = {''e1''}, requests = [ReimportRequest ''e1''], errors = [] \<rparr>)
     (derive sample_fmt 1800 scenario_record)"
proof -
  let ?e = "derive sample_fmt 1800 scenario_record"
  let ?d = "\<lparr> busy = {''e1''}, requests = [ReimportRequest ''e1''], errors = [] \<rparr>"
  let ?out = "FailedWith ''unsupported format''"
  note first_call = busy_gate [where e = ?e and d = idle_dispatcher and d' = ?d and out = ?out]
  note second_call = busy_gate [where e = ?e and d = ?d and d' = ?d and out = ?out]
  have i: "record_id (source ?e) = ''e1''"
    by (simp add: derive_def scenario_record_def)
  have c: "canReimport ?e"
    by (simp add: derive_def scenario_record_def derive_canReimport_def derive_isReady_def
        derive_hasExpired_def)
  have first: "reimport ?e idle_dispatcher = Inr ?d"
    by (simp add: reimport_def gate_canReimport_def idle_dispatcher_def derive_def
        scenario_record_def derive_canReimport_def derive_isReady_def derive_hasExpired_def)
  from first_call first
  have second: "reimport ?e ?d = Inl PreconditionError \<and> record_id (source ?e) \<in> busy ?d"
    by blast
  from second_call second
  have gate: "\<not> gate_canDownload ?d ?e"
    by blast
  from second_call
  have "gate_canReimport (resolve (record_id (source ?e)) ?out ?d) ?e = canReimport ?e"
    by blast
  with i c have after: "gate_canReimport (resolve ''e1'' ?out ?d) ?e"
    by simp
  from first second gate after show ?thesis by blast
qed

end
